theory Spec2Isabelle
  imports Main
begin

section \<open>Strings\<close>

text \<open>
  JavaScript strings are modelled as \<^typ>\<open>string\<close> (lists of 8-bit characters). The
  generator only inspects ASCII characters (\<^verbatim>\<open>/\<close>, \<^verbatim>\<open>{\<close>, \<^verbatim>\<open>-\<close>, \<^verbatim>\<open>_\<close>, the
  regular-expression classes \<^verbatim>\<open>\w\<close> and \<^verbatim>\<open>[^a-zA-Z0-9]\<close>), and the case mappings
  \<^verbatim>\<open>toLowerCase\<close> and \<^verbatim>\<open>toUpperCase\<close> are modelled on the ASCII letters; every other
  character is left unchanged. The statements below are therefore statements about names written
  in ASCII.
\<close>

definition isUpper :: "char \<Rightarrow> bool" where
  "isUpper c = (65 \<le> (of_char c :: nat) \<and> (of_char c :: nat) \<le> 90)"

definition isLower :: "char \<Rightarrow> bool" where
  "isLower c = (97 \<le> (of_char c :: nat) \<and> (of_char c :: nat) \<le> 122)"

definition isDigit :: "char \<Rightarrow> bool" where
  "isDigit c = (48 \<le> (of_char c :: nat) \<and> (of_char c :: nat) \<le> 57)"

text \<open>The class \<^verbatim>\<open>[a-zA-Z0-9]\<close>, and the class \<^verbatim>\<open>\w\<close>, which adds the underscore.\<close>

definition isAlnum :: "char \<Rightarrow> bool" where
  "isAlnum c = (isLower c \<or> isUpper c \<or> isDigit c)"

definition isWord :: "char \<Rightarrow> bool" where
  "isWord c = (isAlnum c \<or> c = CHR ''_'')"

definition toLowerChar :: "char \<Rightarrow> char" where
  "toLowerChar c = (if isUpper c then char_of ((of_char c :: nat) + 32) else c)"

definition toUpperChar :: "char \<Rightarrow> char" where
  "toUpperChar c = (if isLower c then char_of ((of_char c :: nat) - 32) else c)"

definition toLowerCase :: "string \<Rightarrow> string" where
  "toLowerCase s = map toLowerChar s"

definition toUpperCase :: "string \<Rightarrow> string" where
  "toUpperCase s = map toUpperChar s"

text \<open>\<^verbatim>\<open>s.startsWith(p)\<close> and \<^verbatim>\<open>s.includes(p)\<close>.\<close>

definition startsWith :: "string \<Rightarrow> string \<Rightarrow> bool" where
  "startsWith s p = (take (length p) s = p)"

definition str_includes :: "string \<Rightarrow> string \<Rightarrow> bool" where
  "str_includes s p = list_ex (\<lambda>i. startsWith (drop i s) p) [0 ..< Suc (length s)]"

text \<open>
  \<^verbatim>\<open>s.split(d)\<close> for a one-character separator: the result is never empty, and the empty
  string splits into one empty part.
\<close>

fun str_split :: "char \<Rightarrow> string \<Rightarrow> string list" where
  "str_split d [] = [[]]"
| "str_split d (c # cs) =
     (if c = d then [] # str_split d cs
      else (case str_split d cs of
              [] \<Rightarrow> [[c]]
            | part # parts \<Rightarrow> (c # part) # parts))"

text \<open>\<^verbatim>\<open>parts.join(sep)\<close>.\<close>

fun str_join :: "string \<Rightarrow> string list \<Rightarrow> string" where
  "str_join sep [] = []"
| "str_join sep [x] = x"
| "str_join sep (x # y # ys) = x @ sep @ str_join sep (y # ys)"

text \<open>\<^verbatim>\<open>xs.pop()\<close> read for its value only: the last element, \<^verbatim>\<open>undefined\<close> on an empty array.\<close>

fun pop :: "'a list \<Rightarrow> 'a option" where
  "pop [] = None"
| "pop [x] = Some x"
| "pop (x # y # ys) = pop (y # ys)"

text \<open>
  \<^verbatim>\<open>parseInt(s, 10)\<close>: leading white space and one sign are skipped, then the longest run of
  decimal digits is read; no digit at all gives \<^verbatim>\<open>NaN\<close>, which is \<^const>\<open>None\<close> here.
  A JavaScript number is a double, exact up to \<open>2 ^ 53\<close>; the model computes in \<^typ>\<open>int\<close>,
  which agrees with it on every digit run of at most fifteen digits.
\<close>

definition isSpace :: "char \<Rightarrow> bool" where
  "isSpace c = ((of_char c :: nat) = 32 \<or> (9 \<le> (of_char c :: nat) \<and> (of_char c :: nat) \<le> 13))"

definition digitValue :: "char \<Rightarrow> nat" where
  "digitValue c = (of_char c :: nat) - 48"

definition decimalValue :: "string \<Rightarrow> nat" where
  "decimalValue ds = foldl (\<lambda>acc c. 10 * acc + digitValue c) 0 ds"

definition parseInt10 :: "string \<Rightarrow> int option" where
  "parseInt10 s =
     (let s1 = dropWhile isSpace s;
          negative = startsWith s1 ''-'';
          s2 = (if startsWith s1 ''-'' \<or> startsWith s1 ''+'' then tl s1 else s1);
          ds = takeWhile isDigit s2
      in if ds = [] then None
         else Some (if negative then - int (decimalValue ds) else int (decimalValue ds)))"

section \<open>Data model (\<^verbatim>\<open>src/types/cli-types.ts\<close>)\<close>

text \<open>
  A value that an \<^verbatim>\<open>enum\<close> array may hold: a string, or any other JSON value, which is kept
  as the text that \<^verbatim>\<open>Array.prototype.join\<close> renders it to.
\<close>

datatype EnumValue = EnumString string | EnumOther string

text \<open>
  \<^verbatim>\<open>interface Schema\<close>. An optional field is an \<^typ>\<open>'a option\<close>. A
  \<^verbatim>\<open>Record<string, Schema>\<close> is the list of its entries in the order in which
  \<^verbatim>\<open>Object.entries\<close> enumerates them. The field \<^verbatim>\<open>example\<close> is never read by the
  generators and is left out. In \<^verbatim>\<open>interface SwaggerEndpoint\<close> the field \<^verbatim>\<open>method\<close> is
  called \<open>httpMethod\<close> here, \<^verbatim>\<open>method\<close> being a reserved word of Isabelle; fields of
  different interfaces that share a name are told apart by a prefix.
\<close>

datatype Schema = Schema
  (schema_type: string)
  (format: "string option")
  (properties: "(string \<times> Schema) list option")
  (items: "Schema option")
  (schema_required: "string list option")
  (schema_enum: "EnumValue list option")
  (schema_description: "string option")
  (ref: "string option")

record MediaType =
  media_schema :: Schema

record Parameter =
  name :: string
  param_in :: string
  required :: bool
  schema :: Schema
  param_description :: "string option"

record RequestBody =
  body_required :: bool
  body_content :: "(string \<times> MediaType) list"

record Response =
  statusCode :: string
  response_description :: string
  content :: "(string \<times> MediaType) list option"

record SwaggerEndpoint =
  path :: string
  httpMethod :: string
  operationId :: string
  summary :: "string option"
  description :: "string option"
  parameters :: "Parameter list"
  requestBody :: "RequestBody option"
  responses :: "Response list"
  tags :: "string list option"

record Info =
  title :: string
  version :: string
  info_description :: "string option"

record Server =
  url :: string
  server_description :: "string option"

section \<open>The validated document\<close>

text \<open>
  The parser works on the object that \<^verbatim>\<open>SwaggerParser.validate\<close> returns, typed
  \<^verbatim>\<open>any\<close> in the source. It is modelled with the fields that the parser reads; a field that
  may be missing, \<^verbatim>\<open>null\<close> or \<^verbatim>\<open>undefined\<close> is an option. An object is the list of its
  own entries, with distinct keys, in the order in which \<^verbatim>\<open>Object.entries\<close> enumerates them.
  For keys that are not array indices (paths, which begin with \<^verbatim>\<open>/\<close>, verb names, media
  types) this is the order of declaration in the document; the status codes under
  \<^verbatim>\<open>responses\<close> are array indices, which JavaScript enumerates in ascending numeric order
  before the other keys.
\<close>

datatype RawSchema = RawSchema
  (raw_type: "string option")
  (raw_format: "string option")
  (raw_description: "string option")
  (raw_ref: "string option")
  (raw_properties: "(string \<times> RawSchema option) list option")
  (raw_items: "RawSchema option")
  (raw_required: "string list option")
  (raw_enum: "EnumValue list option")

record RawParameter =
  raw_name :: string
  raw_in :: string
  raw_param_required :: "bool option"
  raw_schema :: "RawSchema option"
  raw_param_description :: "string option"

record RawMediaType =
  raw_media_schema :: "RawSchema option"

record RawRequestBody =
  raw_body_required :: "bool option"
  raw_body_content :: "(string \<times> RawMediaType) list option"

record RawResponse =
  raw_response_description :: "string option"
  raw_content :: "(string \<times> RawMediaType) list option"

record RawOperation =
  raw_operationId :: "string option"
  raw_summary :: "string option"
  raw_op_description :: "string option"
  raw_parameters :: "RawParameter list option"
  raw_requestBody :: "RawRequestBody option"
  raw_responses :: "(string \<times> RawResponse) list option"
  raw_tags :: "string list option"

text \<open>
  A path item: its entries in declaration order. Only the seven verb keys are ever read, so
  entries under other keys (\<^verbatim>\<open>parameters\<close>, \<^verbatim>\<open>summary\<close>) are not represented.
\<close>

type_synonym PathItem = "(string \<times> RawOperation option) list"

record RawComponents =
  raw_schemas :: "(string \<times> RawSchema option) list option"

record RawApi =
  api_info :: Info
  api_servers :: "Server list option"
  api_paths :: "(string \<times> PathItem option) list option"
  api_components :: "RawComponents option"

record ParsedSwagger =
  info :: Info
  servers :: "Server list"
  endpoints :: "SwaggerEndpoint list"
  schemas :: "(string \<times> Schema) list"
  components :: "RawComponents option"

section \<open>\<^verbatim>\<open>SwaggerSpecParser\<close>\<close>

fun parseSchema :: "RawSchema option \<Rightarrow> Schema" where
  "parseSchema None = Schema ''any'' None None None None None None None"
| "parseSchema (Some (RawSchema ty fmt desc r props its req en)) =
     Schema
       (case ty of None \<Rightarrow> ''object'' | Some t \<Rightarrow> if t = [] then ''object'' else t)
       fmt
       (case props of
          None \<Rightarrow> None
        | Some ps \<Rightarrow> Some (map (\<lambda>(propName, propSchema). (propName, parseSchema propSchema)) ps))
       (case its of None \<Rightarrow> None | Some i \<Rightarrow> Some (parseSchema (Some i)))
       req en desc r"

definition parseParameter :: "RawParameter \<Rightarrow> Parameter" where
  "parseParameter param =
     \<lparr> name = raw_name param,
       param_in = raw_in param,
       required = (case raw_param_required param of None \<Rightarrow> False | Some b \<Rightarrow> b),
       schema = parseSchema (raw_schema param),
       param_description = raw_param_description param \<rparr>"

definition parseContent :: "(string \<times> RawMediaType) list option \<Rightarrow> (string \<times> MediaType) list" where
  "parseContent c =
     (case c of
        None \<Rightarrow> []
      | Some entries \<Rightarrow>
          map (\<lambda>(mediaType, mediaTypeObj).
                 (mediaType, \<lparr> media_schema = parseSchema (raw_media_schema mediaTypeObj) \<rparr>))
              entries)"

definition parseRequestBody :: "RawRequestBody \<Rightarrow> RequestBody" where
  "parseRequestBody rb =
     \<lparr> body_required = (case raw_body_required rb of None \<Rightarrow> False | Some b \<Rightarrow> b),
       body_content = parseContent (raw_body_content rb) \<rparr>"

definition parseResponse :: "string \<Rightarrow> RawResponse \<Rightarrow> Response" where
  "parseResponse code response =
     (let c = parseContent (raw_content response) in
      \<lparr> statusCode = code,
        response_description =
          (case raw_response_description response of None \<Rightarrow> [] | Some d \<Rightarrow> d),
        content = (if length c > 0 then Some c else None) \<rparr>)"

text \<open>
  \<^verbatim>\<open>parseOperation\<close>: a missing or empty \<^verbatim>\<open>operationId\<close> is replaced by the verb followed
  by the path without the characters outside \<^verbatim>\<open>[a-zA-Z0-9]\<close>.
\<close>

definition parseOperation :: "string \<Rightarrow> string \<Rightarrow> RawOperation \<Rightarrow> SwaggerEndpoint" where
  "parseOperation p m operation =
     \<lparr> path = p, httpMethod = toUpperCase m,
       operationId =
         (case raw_operationId operation of
            None \<Rightarrow> m @ filter isAlnum p
          | Some i \<Rightarrow> if i = [] then m @ filter isAlnum p else i),
       summary = raw_summary operation,
       description = raw_op_description operation,
       parameters =
         (case raw_parameters operation of None \<Rightarrow> [] | Some ps \<Rightarrow> map parseParameter ps),
       requestBody =
         (case raw_requestBody operation of None \<Rightarrow> None | Some rb \<Rightarrow> Some (parseRequestBody rb)),
       responses =
         (case raw_responses operation of
            None \<Rightarrow> []
          | Some rs \<Rightarrow> map (\<lambda>(code, response). parseResponse code response) rs),
       tags = raw_tags operation \<rparr>"

definition methods :: "string list" where
  "methods = [''get'', ''post'', ''put'', ''patch'', ''delete'', ''options'', ''head'']"

text \<open>
  The two loops of \<^verbatim>\<open>parse\<close>; the list of endpoints built so far is passed along, and
  \<^verbatim>\<open>push\<close> appends at its end.
\<close>

fun parse_methods ::
  "string \<Rightarrow> PathItem \<Rightarrow> string list \<Rightarrow> SwaggerEndpoint list \<Rightarrow> SwaggerEndpoint list" where
  "parse_methods p pathItem [] eps = eps"
| "parse_methods p pathItem (m # ms) eps =
     parse_methods p pathItem ms
       (case map_of pathItem m of
          Some (Some operation) \<Rightarrow> eps @ [parseOperation p m operation]
        | _ \<Rightarrow> eps)"

fun parse_paths ::
  "(string \<times> PathItem option) list \<Rightarrow> SwaggerEndpoint list \<Rightarrow> SwaggerEndpoint list" where
  "parse_paths [] eps = eps"
| "parse_paths ((p, pathItem) # rest) eps =
     parse_paths rest
       (case pathItem of
          None \<Rightarrow> eps
        | Some item \<Rightarrow> parse_methods p item methods eps)"

text \<open>
  \<^verbatim>\<open>parse\<close>, after \<^verbatim>\<open>SwaggerParser.validate\<close> has returned the document \<open>api\<close>.
\<close>

definition parse :: "RawApi \<Rightarrow> ParsedSwagger" where
  "parse api =
     \<lparr> info = api_info api,
       servers = (case api_servers api of None \<Rightarrow> [] | Some s \<Rightarrow> s),
       endpoints = (case api_paths api of None \<Rightarrow> [] | Some ps \<Rightarrow> parse_paths ps []),
       schemas =
         (case api_components api of
            None \<Rightarrow> []
          | Some c \<Rightarrow>
              (case raw_schemas c of
                 None \<Rightarrow> []
               | Some ss \<Rightarrow> map (\<lambda>(n, s). (n, parseSchema s)) ss)),
       components = api_components api \<rparr>"

section \<open>Name canonicalization\<close>

text \<open>
  \<^verbatim>\<open>str.replace(/(?:^|[-_])(\w)/g, (_, c) => c.toUpperCase())\<close>, declared with this body in
  \<^verbatim>\<open>TypeGenerator\<close>, \<^verbatim>\<open>ApiGenerator\<close> and \<^verbatim>\<open>DbGenerator\<close>. The scan runs from left to right
  over non-overlapping matches. At the start of the string the first alternative \<^verbatim>\<open>^\<close> is
  tried first and matches one word character; everywhere, a \<^verbatim>\<open>-\<close> or \<^verbatim>\<open>_\<close> followed by a word
  character is a match of two characters, replaced by the second one in upper case.
\<close>

fun pascalRest :: "string \<Rightarrow> string" where
  "pascalRest [] = []"
| "pascalRest [c] = [c]"
| "pascalRest (c # d # cs) =
     (if (c = CHR ''-'' \<or> c = CHR ''_'') \<and> isWord d then toUpperChar d # pascalRest cs
      else c # pascalRest (d # cs))"

definition toPascalCase :: "string \<Rightarrow> string" where
  "toPascalCase str =
     (case str of
        [] \<Rightarrow> []
      | c # cs \<Rightarrow> if isWord c then toUpperChar c # pascalRest cs else pascalRest str)"

text \<open>\<^verbatim>\<open>ApiGenerator.toCamelCase\<close>.\<close>

definition toCamelCase :: "string \<Rightarrow> string" where
  "toCamelCase str =
     (let pascalCase = toPascalCase str in
      case pascalCase of [] \<Rightarrow> [] | c # cs \<Rightarrow> toLowerChar c # cs)"

section \<open>\<^verbatim>\<open>TypeGenerator\<close>\<close>

definition mapSwaggerTypeToTypeScript :: "string \<Rightarrow> string" where
  "mapSwaggerTypeToTypeScript swaggerType =
     (if swaggerType = ''integer'' \<or> swaggerType = ''number'' then ''number''
      else if swaggerType = ''string'' then ''string''
      else if swaggerType = ''boolean'' then ''boolean''
      else if swaggerType = ''array'' then ''any[]''
      else if swaggerType = ''object'' then ''Record<string, any>''
      else ''any'')"

text \<open>A string field in a condition: \<^verbatim>\<open>undefined\<close> and the empty string are falsy.\<close>

definition truthy :: "string option \<Rightarrow> string option" where
  "truthy s = (if s = Some [] then None else s)"

text \<open>\<^verbatim>\<open>$ref.split('/').pop() || dflt\<close>.\<close>

definition refName :: "string \<Rightarrow> string \<Rightarrow> string" where
  "refName r dflt =
     (case pop (str_split CHR ''/'' r) of
        None \<Rightarrow> dflt
      | Some n \<Rightarrow> if n = [] then dflt else n)"

text \<open>\<^verbatim>\<open>typeof value === 'string' ? `'${value}'` : value\<close>, as \<^verbatim>\<open>join\<close> renders it.\<close>

fun enumLiteral :: "EnumValue \<Rightarrow> string" where
  "enumLiteral (EnumString v) = [CHR 0x27] @ v @ [CHR 0x27]"
| "enumLiteral (EnumOther v) = v"

text \<open>\<^verbatim>\<open>schema.required?.includes(propName) || false\<close>.\<close>

definition isRequired :: "string list option \<Rightarrow> string \<Rightarrow> bool" where
  "isRequired req propName = (case req of None \<Rightarrow> False | Some names \<Rightarrow> propName \<in> set names)"

text \<open>
  \<^verbatim>\<open>generateTypeFromSchema\<close>. The guards are tested in the order of the source: a reference,
  an array with items, an enumeration, an object with properties, and the fallback on the type
  name. A reference is never looked up: the function has no access to the table of named schemas.
\<close>

function generateTypeFromSchema :: "Schema \<Rightarrow> string" where
  "generateTypeFromSchema (Schema ty fmt props its req en desc r) =
     (case truthy r of
        Some rf \<Rightarrow> toPascalCase (refName rf ''unknown'')
      | None \<Rightarrow>
         (case (if ty = ''array'' then its else None) of
            Some i \<Rightarrow> generateTypeFromSchema i @ ''[]''
          | None \<Rightarrow>
             (case en of
                Some vs \<Rightarrow> str_join '' | '' (map enumLiteral vs)
              | None \<Rightarrow>
                 (case (if ty = ''object'' then props else None) of
                    Some ps \<Rightarrow>
                      ''{ '' @
                      str_join ''; ''
                        (map (\<lambda>(propName, propSchema).
                                propName @ (if isRequired req propName then [] else ''?'') @
                                '': '' @ generateTypeFromSchema propSchema)
                             ps) @
                      '' }''
                  | None \<Rightarrow> mapSwaggerTypeToTypeScript ty))))"
  by pat_completeness auto
termination
  by (relation "measure size") (auto split: if_splits simp: termination_simp)

text \<open>
  \<^verbatim>\<open>generateInterface\<close>, for a named schema. The object branch is taken when the type is
  \<^verbatim>\<open>object\<close> or when properties are present.
\<close>

definition generateInterface :: "string \<Rightarrow> Schema \<Rightarrow> string" where
  "generateInterface nm s =
     (let interfaceName = toPascalCase nm in
      case truthy (ref s) of
        Some rf \<Rightarrow> ''export type '' @ interfaceName @ '' = '' @ toPascalCase (refName rf nm) @ '';''
      | None \<Rightarrow>
         (case (if schema_type s = ''array'' then items s else None) of
            Some i \<Rightarrow> ''export type '' @ interfaceName @ '' = '' @ generateTypeFromSchema i @ ''[];''
          | None \<Rightarrow>
             (case schema_enum s of
                Some vs \<Rightarrow>
                  ''export type '' @ interfaceName @ '' = '' @
                  str_join '' | '' (map enumLiteral vs) @ '';''
              | None \<Rightarrow>
                 if schema_type s = ''object'' \<or> properties s \<noteq> None then
                   ''export interface '' @ interfaceName @ '' {\<newline>'' @
                   concat
                     (map (\<lambda>(propName, propSchema).
                             (case truthy (schema_description propSchema) of
                                Some d \<Rightarrow> ''  /** '' @ d @ '' */\<newline>''
                              | None \<Rightarrow> []) @
                             ''  '' @ propName @
                             (if isRequired (schema_required s) propName then [] else ''?'') @
                             '': '' @ generateTypeFromSchema propSchema @ '';\<newline>'')
                          (case properties s of None \<Rightarrow> [] | Some ps \<Rightarrow> ps)) @
                   ''}''
                 else
                   ''export type '' @ interfaceName @ '' = '' @
                   mapSwaggerTypeToTypeScript (schema_type s) @ '';'')))"

section \<open>\<^verbatim>\<open>ApiGenerator\<close>\<close>

text \<open>
  \<^verbatim>\<open>generateFunctionName\<close>. The identifier of the endpoint is used when it is not empty;
  otherwise the name is built from the verb and the last path part that is neither empty nor
  begins with \<^verbatim>\<open>{\<close>, or from \<^verbatim>\<open>resource\<close> when there is no such part.
\<close>

definition generateFunctionName :: "SwaggerEndpoint \<Rightarrow> string" where
  "generateFunctionName endpoint =
     (if operationId endpoint \<noteq> [] then toCamelCase (operationId endpoint)
      else
        let m = toLowerCase (httpMethod endpoint);
            pathParts =
              filter (\<lambda>part. part \<noteq> [] \<and> \<not> startsWith part ''{'')
                     (str_split CHR ''/'' (path endpoint));
            resourceName =
              (case pop pathParts of
                 None \<Rightarrow> ''resource''
               | Some part \<Rightarrow> if part = [] then ''resource'' else part)
        in m @ toPascalCase resourceName)"

definition generateDbFunctionName :: "SwaggerEndpoint \<Rightarrow> string" where
  "generateDbFunctionName endpoint =
     (let m = toLowerCase (httpMethod endpoint) in
      if m = ''get'' then
        (if str_includes (path endpoint) ''{'' then ''findById'' else ''findAll'')
      else if m = ''post'' then ''create''
      else if m = ''put'' \<or> m = ''patch'' then ''update''
      else if m = ''delete'' then ''delete''
      else ''query'')"

text \<open>\<^verbatim>\<open>getSuccessStatusCode\<close>; the result is a JavaScript number, \<^const>\<open>None\<close> being \<^verbatim>\<open>NaN\<close>.\<close>

definition getSuccessStatusCode :: "SwaggerEndpoint \<Rightarrow> int option" where
  "getSuccessStatusCode endpoint =
     (case find (\<lambda>r. startsWith (statusCode r) ''2'') (responses endpoint) of
        Some successResponse \<Rightarrow> parseInt10 (statusCode successResponse)
      | None \<Rightarrow>
          (let m = toLowerCase (httpMethod endpoint) in
           if m = ''post'' then Some 201
           else if m = ''delete'' then Some 204
           else Some 200))"

section \<open>Storage groups\<close>

text \<open>
  \<^verbatim>\<open>endpoint.tags?.[0] || 'default'\<close>: the first tag, unless there is none or it is empty.
\<close>

definition firstTag :: "SwaggerEndpoint \<Rightarrow> string" where
  "firstTag endpoint =
     (case tags endpoint of
        None \<Rightarrow> ''default''
      | Some [] \<Rightarrow> ''default''
      | Some (t # ts) \<Rightarrow> if t = [] then ''default'' else t)"

text \<open>
  \<^verbatim>\<open>groupEndpointsByController\<close>, declared with the same body in \<^verbatim>\<open>ApiGenerator\<close> and
  \<^verbatim>\<open>DbGenerator\<close>. The record \<^verbatim>\<open>groups\<close> is the list of its own entries in the order in
  which the keys were first written; property names inherited from \<^verbatim>\<open>Object.prototype\<close> are
  not modelled. One step is the body of the \<^verbatim>\<open>forEach\<close> callback.
\<close>

definition groupEndpoint ::
  "(string \<times> SwaggerEndpoint list) list \<Rightarrow> SwaggerEndpoint \<Rightarrow> (string \<times> SwaggerEndpoint list) list" where
  "groupEndpoint groups endpoint =
     (let controller = firstTag endpoint;
          controllerKey = toLowerCase controller;
          groups1 = (if map_of groups controllerKey = None then groups @ [(controllerKey, [])]
                     else groups)
      in map (\<lambda>(k, eps). if k = controllerKey then (k, eps @ [endpoint]) else (k, eps)) groups1)"

definition groupEndpointsByController ::
  "SwaggerEndpoint list \<Rightarrow> (string \<times> SwaggerEndpoint list) list" where
  "groupEndpointsByController eps = foldl groupEndpoint [] eps"

text \<open>
  \<^verbatim>\<open>getUniqueControllers\<close>, declared with the same body in \<^verbatim>\<open>CodeGenerator\<close> and
  \<^verbatim>\<open>DbGenerator\<close>: a \<^verbatim>\<open>Set\<close> keeps the order of first insertion.
\<close>

definition getUniqueControllers :: "ParsedSwagger \<Rightarrow> string list" where
  "getUniqueControllers parsedSwagger =
     foldl (\<lambda>controllers endpoint.
              let tag = firstTag endpoint in
              if toLowerCase tag \<in> set controllers then controllers
              else controllers @ [toLowerCase tag])
           [] (endpoints parsedSwagger)"

text \<open>
  \<^verbatim>\<open>Object.entries\<close> of a record built by the program: the keys that are array indices (a
  decimal numeral without leading zero, below \<open>2 ^ 32 - 1\<close>) come first, in ascending numeric
  order, then the other keys in the order of their creation.
\<close>

definition isArrayIndex :: "string \<Rightarrow> bool" where
  "isArrayIndex k =
     (k \<noteq> [] \<and> list_all isDigit k \<and> (k = ''0'' \<or> \<not> startsWith k ''0'') \<and>
      decimalValue k < 2 ^ 32 - 1)"

definition objectEntries :: "(string \<times> 'v) list \<Rightarrow> (string \<times> 'v) list" where
  "objectEntries kvs =
     sort_key (\<lambda>kv. decimalValue (fst kv)) (filter (\<lambda>kv. isArrayIndex (fst kv)) kvs) @
     filter (\<lambda>kv. \<not> isArrayIndex (fst kv)) kvs"

section \<open>\<^verbatim>\<open>DbGenerator\<close>\<close>

text \<open>
  \<^verbatim>\<open>generateDbSetup\<close>: the text of \<^verbatim>\<open>db-setup.ts\<close>. The template is fixed but for the list
  of store names, one per storage group.
\<close>

definition generateDbSetup :: "ParsedSwagger \<Rightarrow> string" where
  \<open>generateDbSetup parsedSwagger =
     ''// Generated IndexedDB Setup\<newline>'' @
     ''import { defaultConfig } from \'../config/api-config\';\<newline>'' @
     ''\<newline>'' @
     ''export interface DbRecord {\<newline>'' @
     ''  id: string;\<newline>'' @
     ''  createdAt: Date;\<newline>'' @
     ''  updatedAt: Date;\<newline>'' @
     ''  [key: string]: any;\<newline>'' @
     ''}\<newline>'' @
     ''\<newline>'' @
     ''export class DatabaseManager {\<newline>'' @
     ''  private db: IDBDatabase | null = null;\<newline>'' @
     ''  private dbName: string;\<newline>'' @
     ''  private version: number = 1;\<newline>'' @
     ''\<newline>'' @
     ''  constructor(dbName: string = defaultConfig.dbName) {\<newline>'' @
     ''    this.dbName = dbName;\<newline>'' @
     ''  }\<newline>'' @
     ''\<newline>'' @
     ''  async init(): Promise<void> {\<newline>'' @
     ''    if (this.db) {\<newline>'' @
     ''      return;\<newline>'' @
     ''    }\<newline>'' @
     ''\<newline>'' @
     ''    return new Promise((resolve, reject) => {\<newline>'' @
     ''      const request = indexedDB.open(this.dbName, this.version);\<newline>'' @
     ''\<newline>'' @
     ''      request.onerror = () => {\<newline>'' @
     ''        reject(new Error(`Failed to open database: ${request.error}`));\<newline>'' @
     ''      };\<newline>'' @
     ''\<newline>'' @
     ''      request.onsuccess = () => {\<newline>'' @
     ''        this.db = request.result;\<newline>'' @
     ''        resolve();\<newline>'' @
     ''      };\<newline>'' @
     ''\<newline>'' @
     ''      request.onupgradeneeded = (event) => {\<newline>'' @
     ''        const db = (event.target as IDBOpenDBRequest).result;\<newline>'' @
     ''        this.createObjectStores(db);\<newline>'' @
     ''      };\<newline>'' @
     ''    });\<newline>'' @
     ''  }\<newline>'' @
     ''\<newline>'' @
     ''  private createObjectStores(db: IDBDatabase): void {\<newline>'' @
     ''    const storeNames = [\<newline>'' @
     ''      '' @
     str_join '',\<newline>      ''
       (map (\<lambda>controller. [CHR 0x27] @ controller @ [CHR 0x27])
            (getUniqueControllers parsedSwagger)) @
     ''\<newline>'' @
     ''    ];\<newline>'' @
     ''\<newline>'' @
     ''    storeNames.forEach(storeName => {\<newline>'' @
     ''      if (!db.objectStoreNames.contains(storeName)) {\<newline>'' @
     ''        const store = db.createObjectStore(storeName, { keyPath: \'id\' });\<newline>'' @
     ''        store.createIndex(\'createdAt\', \'createdAt\', { unique: false });\<newline>'' @
     ''        store.createIndex(\'updatedAt\', \'updatedAt\', { unique: false });\<newline>'' @
     ''      }\<newline>'' @
     ''    });\<newline>'' @
     ''  }\<newline>'' @
     ''\<newline>'' @
     ''  getDatabase(): IDBDatabase {\<newline>'' @
     ''    if (!this.db) {\<newline>'' @
     ''      throw new Error(\'Database not initialized. Call init() first.\');\<newline>'' @
     ''    }\<newline>'' @
     ''    return this.db;\<newline>'' @
     ''  }\<newline>'' @
     ''\<newline>'' @
     ''  async close(): Promise<void> {\<newline>'' @
     ''    if (this.db) {\<newline>'' @
     ''      this.db.close();\<newline>'' @
     ''      this.db = null;\<newline>'' @
     ''    }\<newline>'' @
     ''  }\<newline>'' @
     ''\<newline>'' @
     ''  async clearDatabase(): Promise<void> {\<newline>'' @
     ''    if (!this.db) {\<newline>'' @
     ''      await this.init();\<newline>'' @
     ''    }\<newline>'' @
     ''\<newline>'' @
     ''    const storeNames = Array.from(this.db!.objectStoreNames);\<newline>'' @
     ''    const transaction = this.db!.transaction(storeNames, \'readwrite\');\<newline>'' @
     ''\<newline>'' @
     ''    const promises = storeNames.map(storeName => {\<newline>'' @
     ''      return new Promise<void>((resolve, reject) => {\<newline>'' @
     ''        const store = transaction.objectStore(storeName);\<newline>'' @
     ''        const request = store.clear();\<newline>'' @
     ''        \<newline>'' @
     ''        request.onsuccess = () => resolve();\<newline>'' @
     ''        request.onerror = () => reject(request.error);\<newline>'' @
     ''      });\<newline>'' @
     ''    });\<newline>'' @
     ''\<newline>'' @
     ''    await Promise.all(promises);\<newline>'' @
     ''  }\<newline>'' @
     ''}\<newline>'' @
     ''\<newline>'' @
     ''// Singleton instance\<newline>'' @
     ''export const dbManager = new DatabaseManager();\<newline>'' @
     ''\<newline>'' @
     ''// Utility functions\<newline>'' @
     ''export function generateId(): string {\<newline>'' @
     ''  return Date.now().toString(36) + Math.random().toString(36).substr(2);\<newline>'' @
     ''}\<newline>'' @
     ''\<newline>'' @
     ''export function createDbRecord<T extends object>(data: T): DbRecord & T {\<newline>'' @
     ''  return {\<newline>'' @
     ''    id: generateId(),\<newline>'' @
     ''    createdAt: new Date(),\<newline>'' @
     ''    updatedAt: new Date(),\<newline>'' @
     ''    ...data\<newline>'' @
     ''  };\<newline>'' @
     ''}\<newline>'' @
     ''\<newline>'' @
     ''export function updateDbRecord<T extends DbRecord>(record: T, updates: Partial<T>): T {\<newline>'' @
     ''  return {\<newline>'' @
     ''    ...record,\<newline>'' @
     ''    ...updates,\<newline>'' @
     ''    updatedAt: new Date()\<newline>'' @
     ''  };\<newline>'' @
     ''}\<newline>'' @
     ''\<newline>'' @
     ''export function queryByFilter<T extends DbRecord>(\<newline>'' @
     ''  records: T[],\<newline>'' @
     ''  filter: Record<string, any>\<newline>'' @
     ''): T[] {\<newline>'' @
     ''  return records.filter(record => {\<newline>'' @
     ''    return Object.entries(filter).every(([key, value]) => {\<newline>'' @
     ''      if (value === undefined || value === null) return true;\<newline>'' @
     ''      return record[key] === value;\<newline>'' @
     ''    });\<newline>'' @
     ''  });\<newline>'' @
     ''}\<newline>'' @
     ''\<newline>'' @
     ''export function sortRecords<T extends DbRecord>(\<newline>'' @
     ''  records: T[],\<newline>'' @
     ''  sortBy: string,\<newline>'' @
     ''  sortOrder: \'asc\' | \'desc\' = \'asc'' @ [CHR 0x27] @ ''\<newline>'' @
     ''): T[] {\<newline>'' @
     ''  return [...records].sort((a, b) => {\<newline>'' @
     ''    const aValue = a[sortBy];\<newline>'' @
     ''    const bValue = b[sortBy];\<newline>'' @
     ''    \<newline>'' @
     ''    if (aValue < bValue) return sortOrder === \'asc\' ? -1 : 1;\<newline>'' @
     ''    if (aValue > bValue) return sortOrder === \'asc\' ? 1 : -1;\<newline>'' @
     ''    return 0;\<newline>'' @
     ''  });\<newline>'' @
     ''}\<newline>'' @
     ''\<newline>'' @
     ''export function paginateRecords<T extends DbRecord>(\<newline>'' @
     ''  records: T[],\<newline>'' @
     ''  page: number = 1,\<newline>'' @
     ''  pageSize: number = 10\<newline>'' @
     ''): { data: T[]; total: number; page: number; pageSize: number; hasNext: boolean; hasPrevious: boolean } {\<newline>'' @
     ''  const startIndex = (page - 1) * pageSize;\<newline>'' @
     ''  const endIndex = startIndex + pageSize;\<newline>'' @
     ''  const data = records.slice(startIndex, endIndex);\<newline>'' @
     ''  \<newline>'' @
     ''  return {\<newline>'' @
     ''    data,\<newline>'' @
     ''    total: records.length,\<newline>'' @
     ''    page,\<newline>'' @
     ''    pageSize,\<newline>'' @
     ''    hasNext: endIndex < records.length,\<newline>'' @
     ''    hasPrevious: page > 1\<newline>'' @
     ''  };\<newline>'' @
     ''}\<newline>''\<close>


text \<open>
  \<^verbatim>\<open>generateDbFile\<close>: the text of the database class of one storage group. The body of the
  generated \<^verbatim>\<open>seedData\<close> method depends on \<^verbatim>\<open>seedData && seedData.length > 0\<close>. The seed
  records are opaque; \<open>stringify\<close> stands for \<^verbatim>\<open>JSON.stringify(seedData, null, 4)\<close>. The
  arguments \<^verbatim>\<open>endpoints\<close> (here \<open>groupEndpoints\<close>) and \<^verbatim>\<open>parsedSwagger\<close> are not read.
\<close>

definition generateDbFile ::
  "('r list \<Rightarrow> string) \<Rightarrow> string \<Rightarrow> SwaggerEndpoint list \<Rightarrow> ParsedSwagger \<Rightarrow> 'r list option
     \<Rightarrow> string" where
  \<open>generateDbFile stringify controller groupEndpoints parsedSwagger seedData =
    (let controllerName = toPascalCase controller;
         noSeedData =
            ''\<newline>'' @
            ''    console.log(`No seed data provided for '' @ controllerName @ ''`);\<newline>'' @
            ''    ''
     in
     ''// Generated Database operations for '' @ controllerName @ ''\<newline>'' @
     ''import { \<newline>'' @
     ''  dbManager, \<newline>'' @
     ''  DbRecord, \<newline>'' @
     ''  createDbRecord, \<newline>'' @
     ''  updateDbRecord, \<newline>'' @
     ''  queryByFilter, \<newline>'' @
     ''  sortRecords, \<newline>'' @
     ''  paginateRecords \<newline>'' @
     ''} from \'./db-setup\';\<newline>'' @
     ''\<newline>'' @
     ''export class '' @ controller @ ''Database {\<newline>'' @
     ''  private readonly storeName = '' @ [CHR 0x27] @ controller @ ''\';\<newline>'' @
     ''\<newline>'' @
     ''  async init(): Promise<void> {\<newline>'' @
     ''    await dbManager.init();\<newline>'' @
     ''  }\<newline>'' @
     ''\<newline>'' @
     ''  async findAll(params?: any): Promise<DbRecord[]> {\<newline>'' @
     ''    await this.init();\<newline>'' @
     ''    \<newline>'' @
     ''    return new Promise((resolve, reject) => {\<newline>'' @
     ''      const db = dbManager.getDatabase();\<newline>'' @
     ''      const transaction = db.transaction(this.storeName, \'readonly\');\<newline>'' @
     ''      const store = transaction.objectStore(this.storeName);\<newline>'' @
     ''      const request = store.getAll();\<newline>'' @
     ''\<newline>'' @
     ''      request.onsuccess = () => {\<newline>'' @
     ''        let records = request.result as DbRecord[];\<newline>'' @
     ''        \<newline>'' @
     ''        // Apply filtering\<newline>'' @
     ''        if (params) {\<newline>'' @
     ''          if (params.filter) {\<newline>'' @
     ''            records = queryByFilter(records, params.filter);\<newline>'' @
     ''          }\<newline>'' @
     ''          \<newline>'' @
     ''          // Apply sorting\<newline>'' @
     ''          if (params.sortBy) {\<newline>'' @
     ''            records = sortRecords(records, params.sortBy, params.sortOrder);\<newline>'' @
     ''          }\<newline>'' @
     ''          \<newline>'' @
     ''          // Apply pagination\<newline>'' @
     ''          if (params.page || params.pageSize) {\<newline>'' @
     ''            const paginated = paginateRecords(records, params.page, params.pageSize);\<newline>'' @
     ''            resolve(paginated.data);\<newline>'' @
     ''            return;\<newline>'' @
     ''          }\<newline>'' @
     ''        }\<newline>'' @
     ''        \<newline>'' @
     ''        resolve(records);\<newline>'' @
     ''      };\<newline>'' @
     ''\<newline>'' @
     ''      request.onerror = () => {\<newline>'' @
     ''        reject(new Error(`Failed to fetch '' @ controller @ '' records: ${request.error}`));\<newline>'' @
     ''      };\<newline>'' @
     ''    });\<newline>'' @
     ''  }\<newline>'' @
     ''\<newline>'' @
     ''  async findById(id: string): Promise<DbRecord | null> {\<newline>'' @
     ''    await this.init();\<newline>'' @
     ''    \<newline>'' @
     ''    return new Promise((resolve, reject) => {\<newline>'' @
     ''      const db = dbManager.getDatabase();\<newline>'' @
     ''      const transaction = db.transaction(this.storeName, \'readonly\');\<newline>'' @
     ''      const store = transaction.objectStore(this.storeName);\<newline>'' @
     ''      const request = store.get(id);\<newline>'' @
     ''\<newline>'' @
     ''      request.onsuccess = () => {\<newline>'' @
     ''        const record = request.result as DbRecord | undefined;\<newline>'' @
     ''        if (!record) {\<newline>'' @
     ''          const error = new Error(`'' @ controllerName @ '' with id \'${id}\' not found`);\<newline>'' @
     ''          (error as any).status = 404;\<newline>'' @
     ''          reject(error);\<newline>'' @
     ''          return;\<newline>'' @
     ''        }\<newline>'' @
     ''        resolve(record);\<newline>'' @
     ''      };\<newline>'' @
     ''\<newline>'' @
     ''      request.onerror = () => {\<newline>'' @
     ''        reject(new Error(`Failed to fetch '' @ controller @ '' by id: ${request.error}`));\<newline>'' @
     ''      };\<newline>'' @
     ''    });\<newline>'' @
     ''  }\<newline>'' @
     ''\<newline>'' @
     ''  async create(data: any): Promise<DbRecord> {\<newline>'' @
     ''    await this.init();\<newline>'' @
     ''    \<newline>'' @
     ''    const record = createDbRecord(data);\<newline>'' @
     ''    \<newline>'' @
     ''    return new Promise((resolve, reject) => {\<newline>'' @
     ''      const db = dbManager.getDatabase();\<newline>'' @
     ''      const transaction = db.transaction(this.storeName, \'readwrite\');\<newline>'' @
     ''      const store = transaction.objectStore(this.storeName);\<newline>'' @
     ''      const request = store.add(record);\<newline>'' @
     ''\<newline>'' @
     ''      request.onsuccess = () => {\<newline>'' @
     ''        resolve(record);\<newline>'' @
     ''      };\<newline>'' @
     ''\<newline>'' @
     ''      request.onerror = () => {\<newline>'' @
     ''        reject(new Error(`Failed to create '' @ controller @ '' record: ${request.error}`));\<newline>'' @
     ''      };\<newline>'' @
     ''    });\<newline>'' @
     ''  }\<newline>'' @
     ''\<newline>'' @
     ''  async update(id: string, updates: any): Promise<DbRecord> {\<newline>'' @
     ''    await this.init();\<newline>'' @
     ''    \<newline>'' @
     ''    // First, fetch the existing record\<newline>'' @
     ''    const existingRecord = await this.findById(id);\<newline>'' @
     ''    \<newline>'' @
     ''    if (!existingRecord) {\<newline>'' @
     ''      const error = new Error(`'' @ controllerName @ '' with id \'${id}\' not found`);\<newline>'' @
     ''      (error as any).status = 404;\<newline>'' @
     ''      return Promise.reject(error);\<newline>'' @
     ''    }\<newline>'' @
     ''    \<newline>'' @
     ''    const updatedRecord = updateDbRecord(existingRecord, updates);\<newline>'' @
     ''    \<newline>'' @
     ''    return new Promise((resolve, reject) => {\<newline>'' @
     ''      const db = dbManager.getDatabase();\<newline>'' @
     ''      const transaction = db.transaction(this.storeName, \'readwrite\');\<newline>'' @
     ''      const store = transaction.objectStore(this.storeName);\<newline>'' @
     ''      const request = store.put(updatedRecord);\<newline>'' @
     ''\<newline>'' @
     ''      request.onsuccess = () => {\<newline>'' @
     ''        resolve(updatedRecord);\<newline>'' @
     ''      };\<newline>'' @
     ''\<newline>'' @
     ''      request.onerror = () => {\<newline>'' @
     ''        reject(new Error(`Failed to update '' @ controller @ '' record: ${request.error}`));\<newline>'' @
     ''      };\<newline>'' @
     ''    });\<newline>'' @
     ''  }\<newline>'' @
     ''\<newline>'' @
     ''  async delete(id: string): Promise<void> {\<newline>'' @
     ''    await this.init();\<newline>'' @
     ''    \<newline>'' @
     ''    // First, check if record exists\<newline>'' @
     ''    await this.findById(id);\<newline>'' @
     ''    \<newline>'' @
     ''    return new Promise((resolve, reject) => {\<newline>'' @
     ''      const db = dbManager.getDatabase();\<newline>'' @
     ''      const transaction = db.transaction(this.storeName, \'readwrite\');\<newline>'' @
     ''      const store = transaction.objectStore(this.storeName);\<newline>'' @
     ''      const request = store.delete(id);\<newline>'' @
     ''\<newline>'' @
     ''      request.onsuccess = () => {\<newline>'' @
     ''        resolve();\<newline>'' @
     ''      };\<newline>'' @
     ''\<newline>'' @
     ''      request.onerror = () => {\<newline>'' @
     ''        reject(new Error(`Failed to delete '' @ controller @ '' record: ${request.error}`));\<newline>'' @
     ''      };\<newline>'' @
     ''    });\<newline>'' @
     ''  }\<newline>'' @
     ''\<newline>'' @
     ''  async clearAll(): Promise<void> {\<newline>'' @
     ''    await this.init();\<newline>'' @
     ''    \<newline>'' @
     ''    return new Promise((resolve, reject) => {\<newline>'' @
     ''      const db = dbManager.getDatabase();\<newline>'' @
     ''      const transaction = db.transaction(this.storeName, \'readwrite\');\<newline>'' @
     ''      const store = transaction.objectStore(this.storeName);\<newline>'' @
     ''      const request = store.clear();\<newline>'' @
     ''\<newline>'' @
     ''      request.onsuccess = () => {\<newline>'' @
     ''        resolve();\<newline>'' @
     ''      };\<newline>'' @
     ''\<newline>'' @
     ''      request.onerror = () => {\<newline>'' @
     ''        reject(new Error(`Failed to clear '' @ controller @ '' records: ${request.error}`));\<newline>'' @
     ''      };\<newline>'' @
     ''    });\<newline>'' @
     ''  }\<newline>'' @
     ''\<newline>'' @
     ''  async getStats(): Promise<{ totalRecords: number; lastUpdated: Date }> {\<newline>'' @
     ''    await this.init();\<newline>'' @
     ''    \<newline>'' @
     ''    return new Promise((resolve, reject) => {\<newline>'' @
     ''      const db = dbManager.getDatabase();\<newline>'' @
     ''      const transaction = db.transaction(this.storeName, \'readonly\');\<newline>'' @
     ''      const store = transaction.objectStore(this.storeName);\<newline>'' @
     ''      const countRequest = store.count();\<newline>'' @
     ''\<newline>'' @
     ''      countRequest.onsuccess = () => {\<newline>'' @
     ''        const totalRecords = countRequest.result;\<newline>'' @
     ''        \<newline>'' @
     ''        // Get the most recent record to determine last updated\<newline>'' @
     ''        const getAllRequest = store.getAll();\<newline>'' @
     ''        getAllRequest.onsuccess = () => {\<newline>'' @
     ''          const records = getAllRequest.result as DbRecord[];\<newline>'' @
     ''          const lastUpdated = records.length > 0 \<newline>'' @
     ''            ? new Date(Math.max(...records.map(r => r.updatedAt.getTime())))\<newline>'' @
     ''            : new Date();\<newline>'' @
     ''          \<newline>'' @
     ''          resolve({ totalRecords, lastUpdated });\<newline>'' @
     ''        };\<newline>'' @
     ''        \<newline>'' @
     ''        getAllRequest.onerror = () => {\<newline>'' @
     ''          reject(new Error(`Failed to get '' @ controller @ '' stats: ${getAllRequest.error}`));\<newline>'' @
     ''        };\<newline>'' @
     ''      };\<newline>'' @
     ''\<newline>'' @
     ''      countRequest.onerror = () => {\<newline>'' @
     ''        reject(new Error(`Failed to count '' @ controller @ '' records: ${countRequest.error}`));\<newline>'' @
     ''      };\<newline>'' @
     ''    });\<newline>'' @
     ''  }\<newline>'' @
     ''\<newline>'' @
     ''  async exportAll(): Promise<DbRecord[]> {\<newline>'' @
     ''    return this.findAll();\<newline>'' @
     ''  }\<newline>'' @
     ''\<newline>'' @
     ''  async importAll(data: DbRecord[]): Promise<void> {\<newline>'' @
     ''    await this.init();\<newline>'' @
     ''    \<newline>'' @
     ''    return new Promise((resolve, reject) => {\<newline>'' @
     ''      const db = dbManager.getDatabase();\<newline>'' @
     ''      const transaction = db.transaction(this.storeName, \'readwrite\');\<newline>'' @
     ''      const store = transaction.objectStore(this.storeName);\<newline>'' @
     ''      \<newline>'' @
     ''      // Clear existing data first\<newline>'' @
     ''      const clearRequest = store.clear();\<newline>'' @
     ''      clearRequest.onsuccess = () => {\<newline>'' @
     ''        // Import new data\<newline>'' @
     ''        const promises = data.map(record => {\<newline>'' @
     ''          return new Promise<void>((res, rej) => {\<newline>'' @
     ''            const addRequest = store.add(record);\<newline>'' @
     ''            addRequest.onsuccess = () => res();\<newline>'' @
     ''            addRequest.onerror = () => rej(addRequest.error);\<newline>'' @
     ''          });\<newline>'' @
     ''        });\<newline>'' @
     ''        \<newline>'' @
     ''        Promise.all(promises).then(() => resolve()).catch(reject);\<newline>'' @
     ''      };\<newline>'' @
     ''      \<newline>'' @
     ''      clearRequest.onerror = () => {\<newline>'' @
     ''        reject(new Error(`Failed to clear '' @ controller @ '' records for import: ${clearRequest.error}`));\<newline>'' @
     ''      };\<newline>'' @
     ''    });\<newline>'' @
     ''  }\<newline>'' @
     ''\<newline>'' @
     ''  /**\<newline>'' @
     ''   * Seed the database with initial data\<newline>'' @
     ''   */\<newline>'' @
     ''  async seedData(): Promise<void> {\<newline>'' @
     ''    '' @
     (case seedData of
        None \<Rightarrow> noSeedData
      | Some records \<Rightarrow>
          if length records > 0 then
            ''\<newline>'' @
            ''    const seedRecords = '' @ stringify records @ '';\<newline>'' @
            ''    \<newline>'' @
            ''    await this.init();\<newline>'' @
            ''    \<newline>'' @
            ''    // Check if data already exists\<newline>'' @
            ''    const existingRecords = await this.findAll();\<newline>'' @
            ''    if (existingRecords.length > 0) {\<newline>'' @
            ''      console.log(`'' @ controllerName @ '' database already contains data, skipping seed`);\<newline>'' @
            ''      return;\<newline>'' @
            ''    }\<newline>'' @
            ''    \<newline>'' @
            ''    // Convert seed data to database records\<newline>'' @
            ''    const dbRecords = seedRecords.map(item => createDbRecord(item));\<newline>'' @
            ''    \<newline>'' @
            ''    // Import the seed data\<newline>'' @
            ''    await this.importAll(dbRecords);\<newline>'' @
            ''    \<newline>'' @
            ''    console.log(`Seeded '' @ controllerName @ '' database with ${dbRecords.length} records`);\<newline>'' @
            ''    ''
          else noSeedData) @
     ''\<newline>'' @
     ''  }\<newline>'' @
     ''}\<newline>'')\<close>

text \<open>
  \<^verbatim>\<open>fs.writeFile(path.join(outputDir, file), text)\<close>: the directory, the file name handed to
  \<^verbatim>\<open>path.join\<close>, and the text written.
\<close>

datatype FileWrite = WriteFile string string string

text \<open>
  \<^verbatim>\<open>DbGenerator.generate\<close>: the writes it performs, in order. The seed data is \<^verbatim>\<open>null\<close>, or
  a record from storage-group keys to arrays of records;
  \<^verbatim>\<open>seedData?.[controller] || null\<close> is the own entry under the key, an array being truthy even
  when it is empty.
\<close>

definition generate ::
  "('r list \<Rightarrow> string) \<Rightarrow> ParsedSwagger \<Rightarrow> string \<Rightarrow> (string \<rightharpoonup> 'r list) option
     \<Rightarrow> FileWrite list" where
  "generate stringify parsedSwagger outputDir seedData =
     (let dbSetupContent = generateDbSetup parsedSwagger;
          controllerGroups = groupEndpointsByController (endpoints parsedSwagger)
      in WriteFile outputDir ''db-setup.ts'' dbSetupContent #
         map (\<lambda>(controller, eps).
                let controllerSeedData =
                      (case seedData of None \<Rightarrow> None | Some seeds \<Rightarrow> seeds controller);
                    dbContent = generateDbFile stringify controller eps parsedSwagger controllerSeedData
                in WriteFile outputDir (controller @ ''-db.ts'') dbContent)
             (objectEntries controllerGroups))"

section \<open>Notions of the specification, and examples\<close>

text \<open>
  The specification's "trailing path-parameter segment", following its words: the last part of
  the path, split at \<^verbatim>\<open>/\<close>, is a placeholder \<^verbatim>\<open>{param}\<close>. The generator has no such notion;
  it is compared with \<^const>\<open>generateDbFunctionName\<close> below.
\<close>

definition trailing_path_param :: "string \<Rightarrow> bool" where
  "trailing_path_param p =
     (case pop (str_split CHR ''/'' p) of
        None \<Rightarrow> False
      | Some seg \<Rightarrow> startsWith seg ''{'' \<and> startsWith (rev seg) ''}'')"

text \<open>
  An endpoint with no summary, no description, no parameters and no request body, for the
  examples.
\<close>

definition mkEndpoint ::
  "string \<Rightarrow> string \<Rightarrow> string \<Rightarrow> Response list \<Rightarrow> string list option \<Rightarrow> SwaggerEndpoint" where
  "mkEndpoint m p oid rs ts =
     \<lparr> path = p, httpMethod = m, operationId = oid, summary = None, description = None,
       parameters = [], requestBody = None, responses = rs, tags = ts \<rparr>"

text \<open>
  An operation of the document that declares nothing but, possibly, its identifier, and a
  document that declares nothing but its paths, for the examples.
\<close>

definition mkRawOperation :: "string option \<Rightarrow> RawOperation" where
  "mkRawOperation oid =
     \<lparr> raw_operationId = oid, raw_summary = None, raw_op_description = None,
       raw_parameters = None, raw_requestBody = None, raw_responses = None, raw_tags = None \<rparr>"

definition mkRawApi :: "(string \<times> PathItem option) list \<Rightarrow> RawApi" where
  "mkRawApi ps =
     \<lparr> api_info = \<lparr> title = ''Test API'', version = ''1.0.0'', info_description = None \<rparr>,
       api_servers = None, api_paths = Some ps, api_components = None \<rparr>"

text \<open>
  Schemas for the examples: a reference as the parser produces it (the type defaults to
  \<^verbatim>\<open>object\<close>), the type \<^verbatim>\<open>string\<close>, and an object with properties and a required set.
\<close>

definition refSchema :: "string \<Rightarrow> Schema" where
  "refSchema r = Schema ''object'' None None None None None None (Some r)"

definition stringSchema :: Schema where
  "stringSchema = Schema ''string'' None None None None None None None"

definition objectSchema :: "(string \<times> Schema) list \<Rightarrow> string list option \<Rightarrow> Schema" where
  "objectSchema ps req = Schema ''object'' None (Some ps) None req None None None"

text \<open>
  The specification's order of traversal, following its words: the paths in their declaration
  order and, within a path, the verbs in the order in which the document declares them. It is
  compared with the order in which \<^const>\<open>parse\<close> builds the endpoints below.
\<close>

definition declaration_order :: "(string \<times> PathItem option) list \<Rightarrow> (string \<times> string) list" where
  "declaration_order paths =
     concat (map (\<lambda>(p, pathItem).
                    case pathItem of
                      None \<Rightarrow> []
                    | Some item \<Rightarrow>
                        map (\<lambda>(m, operation). (p, toUpperCase m))
                            (filter (\<lambda>(m, operation). m \<in> set methods \<and> operation \<noteq> None) item))
                 paths)"

text \<open>
  The order of the source: the paths in their declaration order and, within a path, the verbs
  that the path item declares with an operation, in the fixed order of \<^const>\<open>methods\<close>.
\<close>

definition declaredOperation :: "PathItem \<Rightarrow> string \<Rightarrow> bool" where
  "declaredOperation item m = (case map_of item m of Some (Some operation) \<Rightarrow> True | _ \<Rightarrow> False)"

definition fixed_verb_order :: "(string \<times> PathItem option) list \<Rightarrow> (string \<times> string) list" where
  "fixed_verb_order paths =
     concat (map (\<lambda>(p, pathItem).
                    case pathItem of
                      None \<Rightarrow> []
                    | Some item \<Rightarrow>
                        map (\<lambda>m. (p, toUpperCase m)) (filter (declaredOperation item) methods))
                 paths)"

text \<open>A response with a status code and nothing else, for the examples.\<close>

definition mkResponse :: "string \<Rightarrow> Response" where
  "mkResponse code = \<lparr> statusCode = code, response_description = [], content = None \<rparr>"

text \<open>A parsed document with endpoints and nothing else, for the examples.\<close>

definition mkParsedSwagger :: "SwaggerEndpoint list \<Rightarrow> ParsedSwagger" where
  "mkParsedSwagger eps =
     \<lparr> info = \<lparr> title = ''Test API'', version = ''1.0.0'', info_description = None \<rparr>,
       servers = [], endpoints = eps, schemas = [], components = None \<rparr>"

section \<open>Properties\<close>

subsection \<open>Strings\<close>

lemma startsWith_single: "startsWith s [c] \<longleftrightarrow> (s \<noteq> [] \<and> hd s = c)"
  by (cases s) (auto simp: startsWith_def)

lemma str_includes_single: "str_includes s [c] \<longleftrightarrow> c \<in> set s"
proof
  assume "str_includes s [c]"
  then have "\<exists>i. startsWith (drop i s) [c]"
    unfolding str_includes_def list_ex_iff by blast
  then obtain i where "startsWith (drop i s) [c]" ..
  then have "drop i s \<noteq> []" "hd (drop i s) = c"
    by (simp_all add: startsWith_single)
  then have "c \<in> set (drop i s)"
    using hd_in_set by blast
  then show "c \<in> set s"
    by (rule in_set_dropD)
next
  assume "c \<in> set s"
  then obtain i where i: "i < length s" "s ! i = c"
    by (auto simp: in_set_conv_nth)
  then have "startsWith (drop i s) [c]"
    by (simp add: startsWith_single hd_drop_conv_nth)
  with i show "str_includes s [c]"
    by (auto simp: str_includes_def list_ex_iff intro!: bexI [of _ i])
qed

lemma str_split_nonempty: "str_split d s \<noteq> []"
  by (induction s) (auto split: list.splits)

lemma set_str_split:
  "c \<noteq> d \<Longrightarrow> (\<exists>seg \<in> set (str_split d s). c \<in> set seg) \<longleftrightarrow> c \<in> set s"
proof (induction s)
  case Nil
  then show ?case by simp
next
  case (Cons a s)
  then show ?case
    by (cases "str_split d s") (auto simp: str_split_nonempty)
qed

lemma pop_in_set: "pop xs = Some x \<Longrightarrow> x \<in> set xs"
  by (induction xs rule: pop.induct) auto

subsection \<open>The database operation of a GET\<close>

lemma trailing_path_param_brace: "trailing_path_param p \<Longrightarrow> CHR ''{'' \<in> set p"
proof -
  assume "trailing_path_param p"
  then obtain seg where seg: "pop (str_split CHR ''/'' p) = Some seg" "startsWith seg ''{''"
    by (auto simp: trailing_path_param_def split: option.splits)
  then have "seg \<in> set (str_split CHR ''/'' p)" "CHR ''{'' \<in> set seg"
    using hd_in_set [of seg] by (auto simp: pop_in_set startsWith_single)
  then have "\<exists>seg \<in> set (str_split CHR ''/'' p). CHR ''{'' \<in> set seg" by blast
  then show ?thesis by (simp add: set_str_split)
qed

text \<open>
  Claim C1, as the specification states it, fails: \<^verbatim>\<open>GET /users/{id}/posts\<close> has the path
  parameter in a non-trailing position, its trailing segment \<^verbatim>\<open>posts\<close> is no placeholder, and
  the database operation is nevertheless \<^verbatim>\<open>findById\<close>.
\<close>

theorem C1_nontrailing_param_counterexample:
  "toLowerCase (httpMethod (mkEndpoint ''GET'' ''/users/{id}/posts'' ''getUserPosts'' [] None)) = ''get''
   \<and> \<not> trailing_path_param (path (mkEndpoint ''GET'' ''/users/{id}/posts'' ''getUserPosts'' [] None))
   \<and> generateDbFunctionName (mkEndpoint ''GET'' ''/users/{id}/posts'' ''getUserPosts'' [] None)
       = ''findById''"
  by code_simp

text \<open>
  Claim C1, amended: for every operation whose verb is GET, the database operation is
  \<^verbatim>\<open>findById\<close> if and only if some segment of the path, trailing or not, contains the
  character \<^verbatim>\<open>{\<close>, and \<^verbatim>\<open>findAll\<close> otherwise. In particular a trailing placeholder yields
  \<^verbatim>\<open>findById\<close>, and so does a path parameter in a non-trailing position.
\<close>

theorem C1_get_findById_iff_brace:
  assumes "toLowerCase (httpMethod ep) = ''get''"
  shows "generateDbFunctionName ep =
           (if \<exists>seg \<in> set (str_split CHR ''/'' (path ep)). CHR ''{'' \<in> set seg
            then ''findById'' else ''findAll'')
         \<and> (trailing_path_param (path ep) \<longrightarrow> generateDbFunctionName ep = ''findById'')"
  using assms trailing_path_param_brace [of "path ep"]
  by (simp add: generateDbFunctionName_def str_includes_single set_str_split)

theorem C1_get_findById_iff_brace_witness:
  "toLowerCase (httpMethod (mkEndpoint ''GET'' ''/pets/{petId}'' ''getPetById'' [] None)) = ''get''
   \<and> trailing_path_param (path (mkEndpoint ''GET'' ''/pets/{petId}'' ''getPetById'' [] None))
   \<and> generateDbFunctionName (mkEndpoint ''GET'' ''/pets/{petId}'' ''getPetById'' [] None)
       = ''findById''"
proof -
  let ?ep = "mkEndpoint ''GET'' ''/pets/{petId}'' ''getPetById'' [] None"
  have m: "toLowerCase (httpMethod ?ep) = ''get''"
    by code_simp
  have t: "trailing_path_param (path ?ep)"
    by code_simp
  from C1_get_findById_iff_brace [OF m] t have "generateDbFunctionName ?ep = ''findById''"
    by blast
  with m t show ?thesis by blast
qed

subsection \<open>The function name of an operation\<close>

lemma pop_eq: "pop xs = (if xs = [] then None else Some (last xs))"
  by (induction xs rule: pop.induct) auto

lemma last_filter: "filter P xs \<noteq> [] \<Longrightarrow> P (last (filter P xs))"
  using last_in_set [of "filter P xs"] by simp

lemma isAlnum_not_sep: "isAlnum c \<Longrightarrow> c \<noteq> CHR ''-'' \<and> c \<noteq> CHR ''_''"
  by (auto simp: isAlnum_def isLower_def isUpper_def isDigit_def)

lemma pascalRest_no_sep:
  "\<forall>c \<in> set xs. c \<noteq> CHR ''-'' \<and> c \<noteq> CHR ''_'' \<Longrightarrow> pascalRest xs = xs"
  by (induction xs rule: pascalRest.induct) auto

lemma lower_upper_char: "isLower c \<Longrightarrow> toLowerChar (toUpperChar c) = c"
  by (auto simp: toUpperChar_def toLowerChar_def isLower_def isUpper_def)

lemma isLower_isWord: "isLower c \<Longrightarrow> isWord c"
  by (simp add: isWord_def isAlnum_def)

text \<open>
  A name that begins with a lower-case letter and goes on with letters and digits only is its
  own camel form.
\<close>

lemma toCamelCase_plain:
  assumes "isLower c" and "\<forall>x \<in> set xs. isAlnum x"
  shows "toCamelCase (c # xs) = c # xs"
proof -
  from assms(2) have "pascalRest xs = xs"
    by (intro pascalRest_no_sep) (auto dest: isAlnum_not_sep)
  with assms(1) show ?thesis
    by (simp add: toCamelCase_def toPascalCase_def isLower_isWord lower_upper_char)
qed

lemma methods_shape:
  "\<forall>m \<in> set methods. m \<noteq> [] \<and> isLower (hd m) \<and> (\<forall>x \<in> set (tl m). isAlnum x)"
  by code_simp

lemma toCamelCase_synthesized:
  assumes "m \<in> set methods"
  shows "toCamelCase (m @ filter isAlnum p) = m @ filter isAlnum p"
proof -
  from assms methods_shape
  have "m \<noteq> [] \<and> isLower (hd m) \<and> (\<forall>x \<in> set (tl m). isAlnum x)"
    by blast
  then obtain c cs where m: "m = c # cs" "isLower c" "\<forall>x \<in> set cs. isAlnum x"
    by (cases m) auto
  then have "toCamelCase (c # (cs @ filter isAlnum p)) = c # (cs @ filter isAlnum p)"
    by (intro toCamelCase_plain) auto
  with m show ?thesis by simp
qed

text \<open>
  Claim C2, as the specification states it, fails for an operation that declares no identifier
  in the document: the parser gives it the identifier \<^verbatim>\<open>getusersprofiles\<close>, which is not empty,
  and the generator emits the camel form of that identifier, not \<^verbatim>\<open>getProfiles\<close>.
\<close>

theorem C2_undeclared_identifier_counterexample:
  "raw_operationId (mkRawOperation None) = None
   \<and> map generateFunctionName
        (endpoints (parse (mkRawApi
           [(''/users/profiles'', Some [(''get'', Some (mkRawOperation None))])])))
      = [''getusersprofiles'']"
  by code_simp

text \<open>
  Claim C2, amended. For every endpoint whose identifier is empty, the function name is the verb
  in lower case followed by the canonicalized last path part that is neither empty nor a
  parameter, or by \<^verbatim>\<open>Resource\<close> when the path has no such part; \<^verbatim>\<open>GET /users/profiles\<close>
  with an empty identifier yields \<^verbatim>\<open>getProfiles\<close>. An operation that declares no identifier
  in the document never reaches this rule: the parser gives it the verb followed by the path
  stripped of the characters outside \<^verbatim>\<open>[a-zA-Z0-9]\<close>, and that identifier is the emitted
  function name (\<^verbatim>\<open>getusersprofiles\<close>).
\<close>

theorem C2_function_name:
  "(operationId ep = [] \<longrightarrow>
      generateFunctionName ep =
        toLowerCase (httpMethod ep) @
        toPascalCase
          (let parts = filter (\<lambda>part. part \<noteq> [] \<and> \<not> startsWith part ''{'')
                              (str_split CHR ''/'' (path ep))
           in if parts = [] then ''resource'' else last parts))
   \<and> (m \<in> set methods
        \<and> (raw_operationId operation = None \<or> raw_operationId operation = Some []) \<longrightarrow>
        operationId (parseOperation p m operation) = m @ filter isAlnum p
        \<and> generateFunctionName (parseOperation p m operation) = m @ filter isAlnum p)"
proof (intro conjI impI)
  let ?parts = "filter (\<lambda>part. part \<noteq> [] \<and> \<not> startsWith part ''{'')
                       (str_split CHR ''/'' (path ep))"
  assume "operationId ep = []"
  moreover have "?parts \<noteq> [] \<Longrightarrow> last ?parts \<noteq> []"
    using last_filter [of "\<lambda>part. part \<noteq> [] \<and> \<not> startsWith part ''{''"] by blast
  ultimately show "generateFunctionName ep =
        toLowerCase (httpMethod ep) @
        toPascalCase (let parts = ?parts in if parts = [] then ''resource'' else last parts)"
    by (auto simp: generateFunctionName_def pop_eq Let_def)
next
  assume a: "m \<in> set methods
    \<and> (raw_operationId operation = None \<or> raw_operationId operation = Some [])"
  then show oid: "operationId (parseOperation p m operation) = m @ filter isAlnum p"
    by (auto simp: parseOperation_def)
  from a methods_shape have "m \<noteq> []" by auto
  with oid a show "generateFunctionName (parseOperation p m operation) = m @ filter isAlnum p"
    by (simp add: generateFunctionName_def toCamelCase_synthesized)
qed

theorem C2_function_name_witness:
  "operationId (mkEndpoint ''GET'' ''/users/profiles'' [] [] None) = []
   \<and> generateFunctionName (mkEndpoint ''GET'' ''/users/profiles'' [] [] None) = ''getProfiles''
   \<and> ''get'' \<in> set methods
   \<and> raw_operationId (mkRawOperation None) = None
   \<and> generateFunctionName (parseOperation ''/users/profiles'' ''get'' (mkRawOperation None))
       = ''getusersprofiles''"
proof -
  let ?ep = "mkEndpoint ''GET'' ''/users/profiles'' [] [] None"
  have h1: "operationId ?ep = []"
    by (simp add: mkEndpoint_def)
  have h2: "''get'' \<in> set methods" "raw_operationId (mkRawOperation None) = None"
    by (simp_all add: methods_def mkRawOperation_def)
  have e1: "toLowerCase (httpMethod ?ep) @
        toPascalCase
          (let parts = filter (\<lambda>part. part \<noteq> [] \<and> \<not> startsWith part ''{'')
                              (str_split CHR ''/'' (path ?ep))
           in if parts = [] then ''resource'' else last parts) = ''getProfiles''"
    by code_simp
  have e2: "''get'' @ filter isAlnum ''/users/profiles'' = ''getusersprofiles''"
    by code_simp
  from C2_function_name [of ?ep "''get''" "mkRawOperation None" "''/users/profiles''"] h1 h2 e1 e2
  show ?thesis by simp
qed

subsection \<open>References\<close>

lemma toUpperChar_not_lower: "\<not> isLower (toUpperChar c)"
  by (auto simp: toUpperChar_def isLower_def)

lemma not_word_not_lower: "\<not> isWord c \<Longrightarrow> \<not> isLower c"
  by (auto simp: isWord_def isAlnum_def)

lemma pascalRest_head:
  "\<not> isWord c \<Longrightarrow> pascalRest (c # cs) = x # xs \<Longrightarrow> \<not> isLower x"
  by (cases cs) (auto simp: toUpperChar_not_lower not_word_not_lower split: if_splits)

text \<open>A canonicalized name never begins with a lower-case letter.\<close>

lemma toPascalCase_head: "toPascalCase s = x # xs \<Longrightarrow> \<not> isLower x"
  by (cases s)
    (auto simp: toPascalCase_def toUpperChar_not_lower split: if_splits dest: pascalRest_head)

lemma toPascalCase_not_any: "toPascalCase s \<noteq> ''any''"
proof
  assume "toPascalCase s = ''any''"
  then have "\<not> isLower CHR ''a''"
    by (rule toPascalCase_head)
  then show False
    by (simp add: isLower_def)
qed

text \<open>
  Claim C3, as the specification states it, fails: in a document whose only named schema is
  \<^verbatim>\<open>Order\<close>, a reference to the absent name \<^verbatim>\<open>Missing\<close> resolves to the type name
  \<^verbatim>\<open>Missing\<close>, not to \<^verbatim>\<open>any\<close>.
\<close>

theorem C3_dangling_reference_counterexample:
  "map_of [(''Order'', objectSchema [(''owner'', refSchema ''#/components/schemas/Missing'')] None)]
      ''Missing'' = None
   \<and> generateTypeFromSchema (refSchema ''#/components/schemas/Missing'') = ''Missing''
   \<and> generateInterface ''Order''
        (objectSchema [(''owner'', refSchema ''#/components/schemas/Missing'')] None)
      = ''export interface Order {\<newline>  owner?: Missing;\<newline>}''"
  by code_simp

text \<open>
  Claim C3, amended: every reference node resolves, without failing and without the table of
  named schemas being consulted, to the canonicalized last segment of its reference path
  (\<^verbatim>\<open>Unknown\<close> when that segment is empty; the name of the schema itself in
  \<^verbatim>\<open>generateInterface\<close>), whether or not a schema of that name is defined; it never resolves
  to \<^verbatim>\<open>any\<close>.
\<close>

theorem C3_reference_resolves_to_name:
  assumes "truthy r = Some rf"
  shows "generateTypeFromSchema (Schema ty fmt props its req en desc r)
           = toPascalCase (refName rf ''unknown'')
         \<and> generateTypeFromSchema (Schema ty fmt props its req en desc r) \<noteq> ''any''
         \<and> generateInterface nm (Schema ty fmt props its req en desc r)
           = ''export type '' @ toPascalCase nm @ '' = '' @ toPascalCase (refName rf nm) @ '';''"
  using assms by (simp add: toPascalCase_not_any generateInterface_def)

theorem C3_reference_resolves_to_name_witness:
  "truthy (Some ''#/components/schemas/Missing'') = Some ''#/components/schemas/Missing''
   \<and> generateTypeFromSchema (refSchema ''#/components/schemas/Missing'') = ''Missing''
   \<and> generateInterface ''Alias'' (refSchema ''#/components/schemas/Missing'')
        = ''export type Alias = Missing;''"
proof -
  have t: "truthy (Some ''#/components/schemas/Missing'') = Some ''#/components/schemas/Missing''"
    by (simp add: truthy_def)
  have e: "toPascalCase (refName ''#/components/schemas/Missing'' ''unknown'') = ''Missing''"
    "''export type '' @ toPascalCase ''Alias'' @ '' = '' @
       toPascalCase (refName ''#/components/schemas/Missing'' ''Alias'') @ '';''
     = ''export type Alias = Missing;''"
    by code_simp+
  from C3_reference_resolves_to_name
         [OF t, of "''object''" None None None None None None "''Alias''"] t e
  show ?thesis by (simp add: refSchema_def)
qed

subsection \<open>Termination of the resolution\<close>





subsection \<open>Required and optional properties\<close>

text \<open>
  Claim C7: in the type emitted for an object schema, inline or as a named interface, there is
  one declaration per property, in the order of the properties, and the declaration of a
  property carries the mark \<^verbatim>\<open>?\<close> of an optional property if and only if its name is not in
  the required set of the schema. For \<^verbatim>\<open>{properties: {id, name}, required: [id]}\<close> the
  property \<^verbatim>\<open>id\<close> is not optional and \<^verbatim>\<open>name\<close> is.
\<close>

theorem C7_required_iff_in_required_set:
  assumes "truthy r = None"
  shows
   "(\<exists>decls. generateTypeFromSchema (Schema ''object'' fmt (Some ps) its req None desc r)
              = ''{ '' @ str_join ''; '' decls @ '' }''
            \<and> length decls = length ps
            \<and> (\<forall>i < length ps.
                  decls ! i =
                    fst (ps ! i) @
                    (if fst (ps ! i) \<in> set (case req of None \<Rightarrow> [] | Some names \<Rightarrow> names)
                     then '': '' else ''?: '') @
                    generateTypeFromSchema (snd (ps ! i))))
    \<and> (\<exists>lines. generateInterface nm (Schema ''object'' fmt (Some ps) its req None desc r)
              = ''export interface '' @ toPascalCase nm @ '' {\<newline>'' @ concat lines @ ''}''
            \<and> length lines = length ps
            \<and> (\<forall>i < length ps.
                  lines ! i =
                    (case truthy (schema_description (snd (ps ! i))) of
                       None \<Rightarrow> [] | Some d \<Rightarrow> ''  /** '' @ d @ '' */\<newline>'') @
                    ''  '' @ fst (ps ! i) @
                    (if fst (ps ! i) \<in> set (case req of None \<Rightarrow> [] | Some names \<Rightarrow> names)
                     then '': '' else ''?: '') @
                    generateTypeFromSchema (snd (ps ! i)) @ '';\<newline>''))"
proof (intro conjI)
  let ?req = "set (case req of None \<Rightarrow> [] | Some names \<Rightarrow> names)"
  have req: "isRequired req n \<longleftrightarrow> n \<in> ?req" for n
    by (simp add: isRequired_def split: option.splits)
  let ?decls = "map (\<lambda>(propName, propSchema).
                                propName @ (if isRequired req propName then [] else ''?'') @
                                '': '' @ generateTypeFromSchema propSchema) ps"
  have "generateTypeFromSchema (Schema ''object'' fmt (Some ps) its req None desc r)
              = ''{ '' @ str_join ''; '' ?decls @ '' }''"
    using assms by simp
  moreover have "length ?decls = length ps" by simp
  moreover have "\<forall>i < length ps.
                  ?decls ! i =
                    fst (ps ! i) @
                    (if fst (ps ! i) \<in> ?req then '': '' else ''?: '') @
                    generateTypeFromSchema (snd (ps ! i))"
    by (auto simp: isRequired_def case_prod_beta split: option.splits)
  ultimately show "\<exists>decls. generateTypeFromSchema (Schema ''object'' fmt (Some ps) its req None desc r)
              = ''{ '' @ str_join ''; '' decls @ '' }''
            \<and> length decls = length ps
            \<and> (\<forall>i < length ps.
                  decls ! i =
                    fst (ps ! i) @
                    (if fst (ps ! i) \<in> ?req then '': '' else ''?: '') @
                    generateTypeFromSchema (snd (ps ! i)))"
    by blast
  let ?lines = "map (\<lambda>(propName, propSchema).
                             (case truthy (schema_description propSchema) of
                                Some d \<Rightarrow> ''  /** '' @ d @ '' */\<newline>''
                              | None \<Rightarrow> []) @
                             ''  '' @ propName @
                             (if isRequired req propName then [] else ''?'') @
                             '': '' @ generateTypeFromSchema propSchema @ '';\<newline>'') ps"
  have "generateInterface nm (Schema ''object'' fmt (Some ps) its req None desc r)
              = ''export interface '' @ toPascalCase nm @ '' {\<newline>'' @ concat ?lines @ ''}''"
    using assms by (simp add: generateInterface_def)
  moreover have "length ?lines = length ps" by simp
  moreover have "\<forall>i < length ps.
                  ?lines ! i =
                    (case truthy (schema_description (snd (ps ! i))) of
                       None \<Rightarrow> [] | Some d \<Rightarrow> ''  /** '' @ d @ '' */\<newline>'') @
                    ''  '' @ fst (ps ! i) @
                    (if fst (ps ! i) \<in> ?req then '': '' else ''?: '') @
                    generateTypeFromSchema (snd (ps ! i)) @ '';\<newline>''"
    by (auto simp: isRequired_def case_prod_beta split: option.splits)
  ultimately show "\<exists>lines. generateInterface nm (Schema ''object'' fmt (Some ps) its req None desc r)
              = ''export interface '' @ toPascalCase nm @ '' {\<newline>'' @ concat lines @ ''}''
            \<and> length lines = length ps
            \<and> (\<forall>i < length ps.
                  lines ! i =
                    (case truthy (schema_description (snd (ps ! i))) of
                       None \<Rightarrow> [] | Some d \<Rightarrow> ''  /** '' @ d @ '' */\<newline>'') @
                    ''  '' @ fst (ps ! i) @
                    (if fst (ps ! i) \<in> ?req then '': '' else ''?: '') @
                    generateTypeFromSchema (snd (ps ! i)) @ '';\<newline>'')"
    by blast
qed


theorem C7_required_iff_in_required_set_witness:
  "truthy None = None
   \<and> generateTypeFromSchema
        (objectSchema [(''id'', stringSchema), (''name'', stringSchema)] (Some [''id'']))
      = ''{ id: string; name?: string }''
   \<and> generateInterface ''User''
        (objectSchema [(''id'', stringSchema), (''name'', stringSchema)] (Some [''id'']))
      = ''export interface User {\<newline>  id: string;\<newline>  name?: string;\<newline>}''"
proof -
  let ?ps = "[(''id'', stringSchema), (''name'', stringSchema)]"
  let ?s = "Schema ''object'' None (Some ?ps) None (Some [''id'']) None None None"
  have t: "truthy None = None"
    by (simp add: truthy_def)
  have str: "generateTypeFromSchema stringSchema = ''string''"
    "truthy (schema_description stringSchema) = None"
    "toPascalCase ''User'' = ''User''"
    by code_simp+
  have two: "xs = [xs ! 0, xs ! 1]" if "length xs = length ?ps" for xs :: "string list"
    using that by (cases xs; cases "tl xs") auto
  note inst = C7_required_iff_in_required_set
               [OF t, of None ?ps None "Some [''id'']" None "''User''"]
  from inst obtain decls where decls:
    "generateTypeFromSchema ?s = ''{ '' @ str_join ''; '' decls @ '' }''"
    "length decls = length ?ps"
    "\<forall>i < length ?ps.
       decls ! i =
         fst (?ps ! i) @
         (if fst (?ps ! i) \<in> set (case Some [''id''] of None \<Rightarrow> [] | Some names \<Rightarrow> names)
          then '': '' else ''?: '') @
         generateTypeFromSchema (snd (?ps ! i))"
    by blast
  from decls(3) have "decls ! 0 = ''id: string''" "decls ! 1 = ''name?: string''"
    by (simp_all add: str)
  with two [OF decls(2)] have "decls = [''id: string'', ''name?: string'']"
    by simp
  with decls(1) have inline: "generateTypeFromSchema ?s = ''{ id: string; name?: string }''"
    by simp
  from inst obtain lines where lines:
    "generateInterface ''User'' ?s
       = ''export interface '' @ toPascalCase ''User'' @ '' {\<newline>'' @ concat lines @ ''}''"
    "length lines = length ?ps"
    "\<forall>i < length ?ps.
       lines ! i =
         (case truthy (schema_description (snd (?ps ! i))) of
            None \<Rightarrow> [] | Some d \<Rightarrow> ''  /** '' @ d @ '' */\<newline>'') @
         ''  '' @ fst (?ps ! i) @
         (if fst (?ps ! i) \<in> set (case Some [''id''] of None \<Rightarrow> [] | Some names \<Rightarrow> names)
          then '': '' else ''?: '') @
         generateTypeFromSchema (snd (?ps ! i)) @ '';\<newline>''"
    by blast
  from lines(3) have "lines ! 0 = ''  id: string;\<newline>''" "lines ! 1 = ''  name?: string;\<newline>''"
    by (simp_all add: str)
  with two [OF lines(2)] have "lines = [''  id: string;\<newline>'', ''  name?: string;\<newline>'']"
    by simp
  with lines(1) have
    "generateInterface ''User'' ?s
       = ''export interface User {\<newline>  id: string;\<newline>  name?: string;\<newline>}''"
    by (simp add: str)
  with inline t show ?thesis
    by (simp add: objectSchema_def)
qed

subsection \<open>The order of the endpoints\<close>

lemma parseOperation_path_method [simp]:
  "path (parseOperation p m operation) = p" "httpMethod (parseOperation p m operation) = toUpperCase m"
  by (simp_all add: parseOperation_def)

lemma parse_methods_order:
  "map (\<lambda>e. (path e, httpMethod e)) (parse_methods p item ms eps) =
     map (\<lambda>e. (path e, httpMethod e)) eps @
     map (\<lambda>m. (p, toUpperCase m)) (filter (declaredOperation item) ms)"
  by (induction ms arbitrary: eps) (auto simp: declaredOperation_def split: option.splits)

lemma parse_paths_order:
  "map (\<lambda>e. (path e, httpMethod e)) (parse_paths paths eps) =
     map (\<lambda>e. (path e, httpMethod e)) eps @ fixed_verb_order paths"
  by (induction paths eps rule: parse_paths.induct)
     (auto simp: fixed_verb_order_def parse_methods_order split: option.splits)

text \<open>
  Claim C4, as the specification states it, fails: a path item that declares \<^verbatim>\<open>post\<close> before
  \<^verbatim>\<open>get\<close> yields the GET endpoint first.
\<close>

theorem C4_declared_verb_order_counterexample:
  "map (\<lambda>e. (path e, httpMethod e))
       (endpoints (parse (mkRawApi
          [(''/pets'', Some [(''post'', Some (mkRawOperation (Some ''createPet''))),
                              (''get'', Some (mkRawOperation (Some ''listPets'')))])])))
     = [(''/pets'', ''GET''), (''/pets'', ''POST'')]
   \<and> declaration_order
          [(''/pets'', Some [(''post'', Some (mkRawOperation (Some ''createPet''))),
                              (''get'', Some (mkRawOperation (Some ''listPets'')))])]
     = [(''/pets'', ''POST''), (''/pets'', ''GET'')]"
  by code_simp

text \<open>
  Claim C4, amended: the endpoints are ordered by path, in the declaration order of the paths,
  and within one path by verb in the fixed order get, post, put, patch, delete, options, head,
  whatever the order in which the document declares the verbs.
\<close>

theorem C4_paths_then_fixed_verb_order:
  "map (\<lambda>e. (path e, httpMethod e)) (endpoints (parse api)) =
     (case api_paths api of None \<Rightarrow> [] | Some paths \<Rightarrow> fixed_verb_order paths)"
  by (simp add: parse_def parse_paths_order split: option.splits)

theorem C4_paths_then_fixed_verb_order_witness:
  "map (\<lambda>e. (path e, httpMethod e))
       (endpoints (parse (mkRawApi
          [(''/pets/{petId}'', Some [(''delete'', Some (mkRawOperation None)),
                              (''get'', Some (mkRawOperation None))]),
           (''/pets'', Some [(''post'', Some (mkRawOperation None))])])))
     = [(''/pets/{petId}'', ''GET''), (''/pets/{petId}'', ''DELETE''), (''/pets'', ''POST'')]"
proof -
  let ?paths = "[(''/pets/{petId}'', Some [(''delete'', Some (mkRawOperation None)),
                              (''get'', Some (mkRawOperation None))]),
           (''/pets'', Some [(''post'', Some (mkRawOperation None))])]"
  have "api_paths (mkRawApi ?paths) = Some ?paths"
    by (simp add: mkRawApi_def)
  moreover have "fixed_verb_order ?paths =
    [(''/pets/{petId}'', ''GET''), (''/pets/{petId}'', ''DELETE''), (''/pets'', ''POST'')]"
    by code_simp
  ultimately show ?thesis
    using C4_paths_then_fixed_verb_order [of "mkRawApi ?paths"] by simp
qed

subsection \<open>The success status code\<close>

lemma startsWith_2_parseInt10:
  assumes "startsWith s ''2''"
  shows "parseInt10 s = Some (int (decimalValue (takeWhile isDigit s)))"
proof -
  from assms obtain rest where s: "s = CHR ''2'' # rest"
    by (cases s) (auto simp: startsWith_def)
  have "\<not> isSpace CHR ''2''" "isDigit CHR ''2''"
    by (simp_all add: isSpace_def isDigit_def)
  then show ?thesis
    by (simp add: s parseInt10_def startsWith_def)
qed

lemma takeWhile_all: "list_all P xs \<Longrightarrow> takeWhile P xs = xs"
  by (induction xs) auto

text \<open>
  Claim C5: the success status code is the numeric value of the first response, in the order of
  the list of responses of the endpoint, whose status code begins with \<^verbatim>\<open>2\<close>; without such a
  response it is 201 for POST, 204 for DELETE and 200 for every other verb. The numeric value
  is what \<^verbatim>\<open>parseInt(code, 10)\<close> reads, which is never \<^verbatim>\<open>NaN\<close> on such a code and is the
  decimal value of the code when the code consists of digits (of at most fifteen digits, so that
  the JavaScript number is exact).
\<close>

theorem C5_success_status_code:
  "(i < length (responses ep)
      \<and> startsWith (statusCode (responses ep ! i)) ''2''
      \<and> (\<forall>j < i. \<not> startsWith (statusCode (responses ep ! j)) ''2'')
    \<longrightarrow> getSuccessStatusCode ep = parseInt10 (statusCode (responses ep ! i))
        \<and> getSuccessStatusCode ep \<noteq> None
        \<and> (list_all isDigit (statusCode (responses ep ! i))
             \<and> length (statusCode (responses ep ! i)) \<le> 15
             \<longrightarrow> getSuccessStatusCode ep = Some (int (decimalValue (statusCode (responses ep ! i))))))
   \<and> ((\<forall>r \<in> set (responses ep). \<not> startsWith (statusCode r) ''2'')
    \<longrightarrow> getSuccessStatusCode ep =
          Some (if toLowerCase (httpMethod ep) = ''post'' then 201
                else if toLowerCase (httpMethod ep) = ''delete'' then 204
                else 200))"
proof (intro conjI impI)
  assume a: "i < length (responses ep)
      \<and> startsWith (statusCode (responses ep ! i)) ''2''
      \<and> (\<forall>j < i. \<not> startsWith (statusCode (responses ep ! j)) ''2'')"
  then have f: "find (\<lambda>r. startsWith (statusCode r) ''2'') (responses ep) = Some (responses ep ! i)"
    by (auto simp: find_Some_iff)
  then show eq: "getSuccessStatusCode ep = parseInt10 (statusCode (responses ep ! i))"
    by (simp add: getSuccessStatusCode_def)
  from a show "getSuccessStatusCode ep \<noteq> None"
    by (simp add: eq startsWith_2_parseInt10)
  assume "list_all isDigit (statusCode (responses ep ! i))
    \<and> length (statusCode (responses ep ! i)) \<le> 15"
  with a show "getSuccessStatusCode ep = Some (int (decimalValue (statusCode (responses ep ! i))))"
    by (simp add: eq startsWith_2_parseInt10 takeWhile_all)
next
  assume "\<forall>r \<in> set (responses ep). \<not> startsWith (statusCode r) ''2''"
  then have "find (\<lambda>r. startsWith (statusCode r) ''2'') (responses ep) = None"
    by (simp add: find_None_iff)
  then show "getSuccessStatusCode ep =
          Some (if toLowerCase (httpMethod ep) = ''post'' then 201
                else if toLowerCase (httpMethod ep) = ''delete'' then 204
                else 200)"
    by (simp add: getSuccessStatusCode_def Let_def)
qed

theorem C5_success_status_code_witness:
  "getSuccessStatusCode (mkEndpoint ''GET'' ''/pets'' ''listPets'' [mkResponse ''404'', mkResponse ''202'', mkResponse ''200''] None) = Some 202
   \<and> getSuccessStatusCode (mkEndpoint ''POST'' ''/pets'' ''createPet'' [mkResponse ''400''] None) = Some 201
   \<and> getSuccessStatusCode (mkEndpoint ''DELETE'' ''/pets/{petId}'' ''deletePet'' [] None) = Some 204
   \<and> getSuccessStatusCode (mkEndpoint ''PUT'' ''/pets/{petId}'' ''updatePet'' [mkResponse ''default''] None) = Some 200"
proof -
  let ?e1 = "mkEndpoint ''GET'' ''/pets'' ''listPets'' [mkResponse ''404'', mkResponse ''202'', mkResponse ''200''] None"
  let ?e2 = "mkEndpoint ''POST'' ''/pets'' ''createPet'' [mkResponse ''400''] None"
  let ?e3 = "mkEndpoint ''DELETE'' ''/pets/{petId}'' ''deletePet'' [] None"
  let ?e4 = "mkEndpoint ''PUT'' ''/pets/{petId}'' ''updatePet'' [mkResponse ''default''] None"
  have h1: "1 < length (responses ?e1)
      \<and> startsWith (statusCode (responses ?e1 ! 1)) ''2''
      \<and> (\<forall>j < 1. \<not> startsWith (statusCode (responses ?e1 ! j)) ''2'')"
    by (simp add: mkEndpoint_def mkResponse_def startsWith_def)
  have d1: "list_all isDigit (statusCode (responses ?e1 ! 1))
      \<and> length (statusCode (responses ?e1 ! 1)) \<le> 15"
    "decimalValue (statusCode (responses ?e1 ! 1)) = 202"
    by code_simp+
  from C5_success_status_code [of 1 ?e1] h1 d1(1)
  have "getSuccessStatusCode ?e1 = Some (int (decimalValue (statusCode (responses ?e1 ! 1))))"
    by blast
  with d1(2) have r1: "getSuccessStatusCode ?e1 = Some 202"
    by simp
  have h2: "\<forall>r \<in> set (responses ?e2). \<not> startsWith (statusCode r) ''2''"
    "\<forall>r \<in> set (responses ?e3). \<not> startsWith (statusCode r) ''2''"
    "\<forall>r \<in> set (responses ?e4). \<not> startsWith (statusCode r) ''2''"
    by (simp_all add: mkEndpoint_def mkResponse_def startsWith_def)
  have m: "toLowerCase (httpMethod ?e2) = ''post''" "toLowerCase (httpMethod ?e3) = ''delete''"
    "toLowerCase (httpMethod ?e4) = ''put''"
    by code_simp+
  from C5_success_status_code [of 0 ?e2] h2(1) m(1) have r2: "getSuccessStatusCode ?e2 = Some 201"
    by simp
  from C5_success_status_code [of 0 ?e3] h2(2) m(2) have r3: "getSuccessStatusCode ?e3 = Some 204"
    by simp
  from C5_success_status_code [of 0 ?e4] h2(3) m(3) have r4: "getSuccessStatusCode ?e4 = Some 200"
    by simp
  from r1 r2 r3 r4 show ?thesis by blast
qed

subsection \<open>Storage groups\<close>




















subsection \<open>Seed data\<close>

lemma generateDbFile_empty_seed:
  "generateDbFile stringify controller g ps (Some []) = generateDbFile stringify controller g ps None"
  by (simp add: generateDbFile_def)

text \<open>
  Claim C9: the database file generated for a storage group with an explicitly empty list of
  seed records is the file generated without seed records, and the writes of a generation are
  the same whether the seed data has no entry under a key or an empty list under it (or is
  absent altogether, against seed data without any entry).
\<close>

theorem C9_missing_seed_is_empty_seed:
  "generateDbFile stringify controller g ps (Some []) = generateDbFile stringify controller g ps None
   \<and> generate stringify ps outputDir (Some (seeds(k \<mapsto> [])))
       = generate stringify ps outputDir (Some (seeds(k := None)))
   \<and> generate stringify ps outputDir (Some Map.empty) = generate stringify ps outputDir None"
  by (auto simp: generate_def Let_def generateDbFile_empty_seed)


theorem C9_missing_seed_is_empty_seed_witness:
  "generate concat
     (mkParsedSwagger [mkEndpoint ''GET'' ''/users'' ''getUsers'' [] (Some [''users'']),
                       mkEndpoint ''GET'' ''/posts'' ''getPosts'' [] (Some [''posts''])])
     ''out'' (Some ([''users'' \<mapsto> [''u1'', ''u2'']](''posts'' \<mapsto> [])))
   = generate concat
     (mkParsedSwagger [mkEndpoint ''GET'' ''/users'' ''getUsers'' [] (Some [''users'']),
                       mkEndpoint ''GET'' ''/posts'' ''getPosts'' [] (Some [''posts''])])
     ''out'' (Some ([''users'' \<mapsto> [''u1'', ''u2'']](''posts'' := None)))"
  using C9_missing_seed_is_empty_seed
          [of concat _ _ _ _ "[''users'' \<mapsto> [''u1'', ''u2'']]" "''posts''"]
  by blast

subsection \<open>Canonicalization of names\<close>







end
